theory Spec2Isabelle
  imports Main "HOL-Library.Word"
begin

section \<open>The movie store of MovieContext.tsx\<close>

text \<open>
  The provider component of \<^verbatim>\<open>src/contexts/MovieContext.tsx\<close> owns nine pieces of React
  state and talks to two collaborators: the axios instance \<^verbatim>\<open>api\<close> and the browser's
  \<^verbatim>\<open>localStorage\<close>. Each operation of the provider is embedded as a function from the
  state before the call to the state after it. A fetch is embedded as one step: the
  request is built, handed to the network, and the answer (a rejection or a response) is
  applied to the state the call started from; calls that overlap in time are outside this
  model.
\<close>

subsection \<open>JavaScript strings\<close>

text \<open>
  A JavaScript string is a sequence of 16-bit code units. Property names, storage keys and
  URL paths occur in the source as literals only and are kept as HOL strings; \<open>js\<close>
  turns an ASCII literal into the code units of the JavaScript string it denotes.
\<close>

type_synonym jsstring = "16 word list"

definition js :: "string \<Rightarrow> jsstring" where
  "js lit = map (\<lambda>c. of_nat (of_char c)) lit"

text \<open>
  \<^verbatim>\<open>String.prototype.trim\<close> strips, at both ends, the code units that ECMAScript calls
  WhiteSpace or LineTerminator: TAB, LF, VT, FF, CR, SPACE, NO-BREAK SPACE, the code points
  of Unicode category Zs (U+1680, U+2000 to U+200A, U+202F, U+205F, U+3000), LINE and
  PARAGRAPH SEPARATOR, and U+FEFF. All of them are single code units.
\<close>

definition isWhiteSpace :: "16 word \<Rightarrow> bool" where
  "isWhiteSpace c \<longleftrightarrow>
     c = 0x0009 \<or> c = 0x000A \<or> c = 0x000B \<or> c = 0x000C \<or> c = 0x000D \<or>
     c = 0x0020 \<or> c = 0x00A0 \<or> c = 0x1680 \<or>
     (0x2000 \<le> c \<and> c \<le> 0x200A) \<or>
     c = 0x2028 \<or> c = 0x2029 \<or> c = 0x202F \<or> c = 0x205F \<or> c = 0x3000 \<or>
     c = 0xFEFF"

definition trim :: "jsstring \<Rightarrow> jsstring" where
  "trim s = rev (dropWhile isWhiteSpace (rev (dropWhile isWhiteSpace s)))"

subsection \<open>Data\<close>

text \<open>
  Modelled from the spec: the types \<^verbatim>\<open>Movie\<close> and \<^verbatim>\<open>SearchResults\<close> are imported from
  \<^verbatim>\<open>../types/movie\<close>, which is not among the sources. The spec gives a movie summary a
  unique integer identifier and list-view metadata, and a listing response the shape
  \<^verbatim>\<open>{results, page, total_pages}\<close>, where \<^verbatim>\<open>results\<close> may be absent. The store reads
  nothing of a movie but its \<^verbatim>\<open>id\<close>.
\<close>

record Movie =
  movie_id :: int
  title :: jsstring

record SearchResults =
  results :: "Movie list option"
  page :: int
  total_pages :: int

record FilterOptions =
  genre :: jsstring
  year :: jsstring
  minRating :: jsstring

text \<open>The literal \<^verbatim>\<open>{ genre: '', year: '', minRating: '' }\<close>.\<close>

definition noFilters :: FilterOptions where
  "noFilters = \<lparr>genre = [], year = [], minRating = []\<rparr>"

text \<open>
  A request is what \<^verbatim>\<open>api.get(url, { params })\<close> receives: the path and the \<^verbatim>\<open>params\<close>
  object, a finite map from property names to values. (The axios instance adds its own
  \<^verbatim>\<open>api_key\<close> to every call; that is configuration of the instance, not of the call.)
\<close>

datatype jsval = JNum int | JStr jsstring | JBool bool

record request =
  url :: string
  params :: "string \<rightharpoonup> jsval"

text \<open>A call of \<^verbatim>\<open>api.get\<close> resolves with the response data or rejects.\<close>

datatype rejection = Rejected

type_synonym network = "request \<Rightarrow> rejection + SearchResults"

text \<open>
  The state: the nine \<^verbatim>\<open>useState\<close> cells, the contents of \<^verbatim>\<open>localStorage\<close>, and the
  requests handed to \<^verbatim>\<open>api.get\<close> so far, oldest first.
\<close>

record state =
  trendingMovies :: "Movie list"
  searchResults :: "Movie list"
  favorites :: "Movie list"
  searchQuery :: jsstring
  isLoading :: bool
  error :: "jsstring option"
  currentPage :: int
  totalPages :: int
  currentFilters :: FilterOptions
  localStorage :: "string \<rightharpoonup> jsstring"
  sent :: "request list"

subsection \<open>Fetching\<close>

text \<open>
  Lines 73 to 77 and 109 to 113: a filter field is copied into \<^verbatim>\<open>params\<close> when the
  filters object is given and the field is truthy, that is, a non-empty string.
\<close>

definition addFilterParams :: "FilterOptions option \<Rightarrow> (string \<rightharpoonup> jsval) \<Rightarrow> (string \<rightharpoonup> jsval)" where
  "addFilterParams filters ps =
     (case filters of
        None \<Rightarrow> ps
      | Some f \<Rightarrow>
          (let ps1 = (if genre f \<noteq> [] then ps(''with_genres'' \<mapsto> JStr (genre f)) else ps);
               ps2 = (if year f \<noteq> [] then ps1(''primary_release_year'' \<mapsto> JStr (year f)) else ps1);
               ps3 = (if minRating f \<noteq> [] then ps2(''vote_average_gte'' \<mapsto> JStr (minRating f)) else ps2)
           in ps3))"

definition trendingRequest :: "int \<Rightarrow> FilterOptions option \<Rightarrow> request" where
  "trendingRequest pg filters =
     \<lparr>url = ''/trending/movie/day'',
      params = addFilterParams filters [''page'' \<mapsto> JNum pg]\<rparr>"

definition searchRequest :: "jsstring \<Rightarrow> int \<Rightarrow> FilterOptions option \<Rightarrow> request" where
  "searchRequest query pg filters =
     \<lparr>url = ''/search/movie'',
      params = addFilterParams filters
        [''query'' \<mapsto> JStr query, ''page'' \<mapsto> JNum pg, ''include_adult'' \<mapsto> JBool False]\<rparr>"

text \<open>The default of the parameter \<^verbatim>\<open>page = 1\<close>: an omitted argument is \<open>None\<close>.\<close>

definition pageOrDefault :: "int option \<Rightarrow> int" where
  "pageOrDefault page_arg = (case page_arg of None \<Rightarrow> 1 | Some p \<Rightarrow> p)"

text \<open>Lines 80 and 116: \<^verbatim>\<open>response.data.results || []\<close>.\<close>

definition resultsOrEmpty :: "SearchResults \<Rightarrow> Movie list" where
  "resultsOrEmpty response = (case results response of None \<Rightarrow> [] | Some ms \<Rightarrow> ms)"

text \<open>
  \<^verbatim>\<open>getTrendingMovies(page = 1, filters?)\<close>, lines 68 to 94. The
  \<^verbatim>\<open>console.error\<close> of the catch block writes a diagnostic and no state.
\<close>

definition getTrendingMovies :: "network \<Rightarrow> int option \<Rightarrow> FilterOptions option \<Rightarrow> state \<Rightarrow> state" where
  "getTrendingMovies api_get page_arg filters s =
     (let pg = pageOrDefault page_arg;
          s1 = s\<lparr>isLoading := True, error := None\<rparr>;
          req = trendingRequest pg filters;
          s2 = s1\<lparr>sent := sent s1 @ [req]\<rparr>;
          s3 = (case api_get req of
                  Inl err \<Rightarrow>
                    s2\<lparr>error := Some (js ''Failed to fetch trending movies. Please try again later.'')\<rparr>
                | Inr response \<Rightarrow>
                    (let movies = resultsOrEmpty response
                     in s2\<lparr>trendingMovies :=
                              (if pg = 1 then movies else trendingMovies s2 @ movies),
                            currentPage := page response,
                            totalPages := total_pages response,
                            currentFilters :=
                              (case filters of None \<Rightarrow> noFilters | Some f \<Rightarrow> f)\<rparr>))
      in s3\<lparr>isLoading := False\<rparr>)"

text \<open>\<^verbatim>\<open>searchMovies(query, page = 1, filters?)\<close>, lines 96 to 132.\<close>

definition searchMovies :: "network \<Rightarrow> jsstring \<Rightarrow> int option \<Rightarrow> FilterOptions option \<Rightarrow> state \<Rightarrow> state" where
  "searchMovies api_get query page_arg filters s =
     (if trim query = [] then s
      else
       (let pg = pageOrDefault page_arg;
            s1 = s\<lparr>isLoading := True, error := None, searchQuery := query\<rparr>;
            req = searchRequest query pg filters;
            s2 = s1\<lparr>sent := sent s1 @ [req]\<rparr>;
            s3 = (case api_get req of
                    Inl err \<Rightarrow>
                      s2\<lparr>error := Some (js ''Failed to find movies. Please try again later.'')\<rparr>
                  | Inr response \<Rightarrow>
                      (let movies = resultsOrEmpty response
                       in s2\<lparr>searchResults :=
                                (if pg = 1 then movies else searchResults s2 @ movies),
                              currentPage := page response,
                              totalPages := total_pages response,
                              currentFilters :=
                                (case filters of None \<Rightarrow> noFilters | Some f \<Rightarrow> f),
                              localStorage := (localStorage s2)(''lastSearch'' \<mapsto> query)\<rparr>))
        in s3\<lparr>isLoading := False\<rparr>))"

subsection \<open>Numbers\<close>

text \<open>
  A JavaScript number is an IEEE 754 double. The page counters hold integer values, and
  the one arithmetic operation of the store is the sum \<^verbatim>\<open>currentPage + 1\<close>: the exact
  sum, rounded to the nearest double, a tie going to the even significand. An integer of
  magnitude up to \<open>2 ^ 53\<close> is a double; a larger one is rounded to 53 significant bits.
  (A sum of magnitude \<open>2 ^ 1024\<close>, which would be infinite, is not reached by adding 1
  to a double.)
\<close>

fun bitLength :: "nat \<Rightarrow> nat" where
  "bitLength 0 = 0"
| "bitLength (Suc n) = Suc (bitLength (Suc n div 2))"

definition roundToDouble :: "int \<Rightarrow> int" where
  "roundToDouble x =
     (let m = nat \<bar>x\<bar>
      in if m \<le> 2 ^ 53 then x
         else (let e = bitLength m - 53;
                   q = m div 2 ^ e;
                   r = m mod 2 ^ e;
                   q' = (if 2 ^ (e - 1) < r \<or> (r = 2 ^ (e - 1) \<and> odd q) then q + 1 else q)
               in sgn x * int (q' * 2 ^ e)))"

definition addNumbers :: "int \<Rightarrow> int \<Rightarrow> int" where
  "addNumbers a b = roundToDouble (a + b)"

subsection \<open>Continuation and reset\<close>

text \<open>Lines 134 to 139.\<close>

definition loadMoreTrending :: "network \<Rightarrow> state \<Rightarrow> state" where
  "loadMoreTrending api_get s =
     (if currentPage s < totalPages s
      then getTrendingMovies api_get (Some (addNumbers (currentPage s) 1))
             (Some (currentFilters s)) s
      else s)"

definition loadMoreResults :: "network \<Rightarrow> state \<Rightarrow> state" where
  "loadMoreResults api_get s =
     (if currentPage s < totalPages s
      then searchMovies api_get (searchQuery s) (Some (addNumbers (currentPage s) 1))
             (Some (currentFilters s)) s
      else s)"

text \<open>Lines 141 to 147.\<close>

definition resetSearch :: "state \<Rightarrow> state" where
  "resetSearch s =
     s\<lparr>searchResults := [],
       searchQuery := [],
       currentPage := 1,
       currentFilters := noFilters,
       localStorage := (localStorage s)(''lastSearch'' := None)\<rparr>"

subsection \<open>Favorites\<close>

text \<open>
  Lines 149 to 166. \<^verbatim>\<open>JSON.stringify\<close> is the platform's encoder; the operations take it
  as the parameter \<open>stringify\<close>, and nothing is assumed about it. \<^verbatim>\<open>setItem\<close> is
  taken to succeed.
\<close>

definition addToFavorites :: "(Movie list \<Rightarrow> jsstring) \<Rightarrow> Movie \<Rightarrow> state \<Rightarrow> state" where
  "addToFavorites stringify movie s =
     (let prev = favorites s
      in if \<not> list_ex (\<lambda>m. movie_id m = movie_id movie) prev
         then (let updated = prev @ [movie]
               in s\<lparr>localStorage := (localStorage s)(''favorites'' \<mapsto> stringify updated),
                    favorites := updated\<rparr>)
         else s\<lparr>favorites := prev\<rparr>)"

definition removeFromFavorites :: "(Movie list \<Rightarrow> jsstring) \<Rightarrow> int \<Rightarrow> state \<Rightarrow> state" where
  "removeFromFavorites stringify movieId s =
     (let prev = favorites s;
          updated = filter (\<lambda>m. movie_id m \<noteq> movieId) prev
      in s\<lparr>localStorage := (localStorage s)(''favorites'' \<mapsto> stringify updated),
           favorites := updated\<rparr>)"

text \<open>Line 168.\<close>

definition isFavorite :: "int \<Rightarrow> state \<Rightarrow> bool" where
  "isFavorite movieId s = list_ex (\<lambda>m. movie_id m = movieId) (favorites s)"

subsection \<open>The first render\<close>

text \<open>
  Lines 54 to 65 on a browser whose storage is empty: both \<^verbatim>\<open>getItem\<close> calls answer
  \<^verbatim>\<open>null\<close>, so the favorites start empty and the query is the empty string.
\<close>

definition freshState :: state where
  "freshState =
     \<lparr>trendingMovies = [], searchResults = [], favorites = [], searchQuery = [],
      isLoading = False, error = None, currentPage = 1, totalPages = 1,
      currentFilters = noFilters, localStorage = Map.empty, sent = []\<rparr>"

subsection \<open>Synchronisation of the favorites\<close>

text \<open>
  The entry \<^verbatim>\<open>favorites\<close> of the storage holds the encoding of the favorites in memory.
\<close>

definition favoritesSynced :: "(Movie list \<Rightarrow> jsstring) \<Rightarrow> state \<Rightarrow> bool" where
  "favoritesSynced stringify s \<longleftrightarrow>
     localStorage s ''favorites'' = Some (stringify (favorites s))"

subsection \<open>Sample inputs\<close>

text \<open>
  Concrete movies, networks and an encoder, on which the theorems below are instantiated:
  a network that resolves every request with the same page, one that rejects every
  request, and an encoder that writes one code unit per movie.
\<close>

definition sampleMovie :: "int \<Rightarrow> Movie" where
  "sampleMovie i = \<lparr>movie_id = i, title = []\<rparr>"

definition answering :: "Movie list \<Rightarrow> int \<Rightarrow> int \<Rightarrow> network" where
  "answering ms p tp = (\<lambda>req. Inr \<lparr>results = Some ms, page = p, total_pages = tp\<rparr>)"

definition rejecting :: network where
  "rejecting = (\<lambda>req. Inl Rejected)"

definition sampleStringify :: "Movie list \<Rightarrow> jsstring" where
  "sampleStringify ms = map (\<lambda>m. word_of_int (movie_id m)) ms"

text \<open>
  The store after the trending fetch of the first render has been resolved with page 1 of
  3: the query is still the empty string.
\<close>

definition afterFirstTrending :: state where
  "afterFirstTrending = getTrendingMovies (answering [sampleMovie 1] 1 3) None None freshState"

section \<open>Basic facts\<close>

subsection \<open>Blank strings\<close>

lemma trim_empty_iff: "trim s = [] \<longleftrightarrow> (\<forall>c\<in>set s. isWhiteSpace c)"
proof -
  have "trim s = [] \<longleftrightarrow> (\<forall>c\<in>set (dropWhile isWhiteSpace s). isWhiteSpace c)"
    by (simp add: trim_def dropWhile_eq_Nil_conv)
  also have "\<dots> \<longleftrightarrow> dropWhile isWhiteSpace s = []"
  proof
    assume all: "\<forall>c\<in>set (dropWhile isWhiteSpace s). isWhiteSpace c"
    show "dropWhile isWhiteSpace s = []"
    proof (rule ccontr)
      assume ne: "dropWhile isWhiteSpace s \<noteq> []"
      then have "\<not> isWhiteSpace (hd (dropWhile isWhiteSpace s))"
        by (rule hd_dropWhile)
      moreover have "hd (dropWhile isWhiteSpace s) \<in> set (dropWhile isWhiteSpace s)"
        using ne by simp
      ultimately show False using all by blast
    qed
  qed (auto dest: set_dropWhileD)
  also have "\<dots> \<longleftrightarrow> (\<forall>c\<in>set s. isWhiteSpace c)"
    by (simp add: dropWhile_eq_Nil_conv)
  finally show ?thesis .
qed

lemma trim_js_up: "trim (js ''up'') \<noteq> []"
  by (simp add: trim_def js_def isWhiteSpace_def)

subsection \<open>The three outcomes of a fetch\<close>

lemma getTrendingMovies_rejected:
  assumes "api_get (trendingRequest (pageOrDefault page_arg) filters) = Inl e"
  shows "getTrendingMovies api_get page_arg filters s =
           s\<lparr>isLoading := False,
             error := Some (js ''Failed to fetch trending movies. Please try again later.''),
             sent := sent s @ [trendingRequest (pageOrDefault page_arg) filters]\<rparr>"
  using assms by (simp add: getTrendingMovies_def Let_def)

lemma getTrendingMovies_resolved:
  assumes "api_get (trendingRequest (pageOrDefault page_arg) filters) = Inr response"
  shows "getTrendingMovies api_get page_arg filters s =
           s\<lparr>isLoading := False,
             error := None,
             sent := sent s @ [trendingRequest (pageOrDefault page_arg) filters],
             trendingMovies :=
               (if pageOrDefault page_arg = 1 then resultsOrEmpty response
                else trendingMovies s @ resultsOrEmpty response),
             currentPage := page response,
             totalPages := total_pages response,
             currentFilters := (case filters of None \<Rightarrow> noFilters | Some f \<Rightarrow> f)\<rparr>"
  using assms by (simp add: getTrendingMovies_def Let_def)

lemma searchMovies_blank:
  assumes "trim query = []"
  shows "searchMovies api_get query page_arg filters s = s"
  using assms by (simp add: searchMovies_def)

lemma searchMovies_rejected:
  assumes "trim query \<noteq> []"
    and "api_get (searchRequest query (pageOrDefault page_arg) filters) = Inl e"
  shows "searchMovies api_get query page_arg filters s =
           s\<lparr>isLoading := False,
             error := Some (js ''Failed to find movies. Please try again later.''),
             searchQuery := query,
             sent := sent s @ [searchRequest query (pageOrDefault page_arg) filters]\<rparr>"
  using assms by (simp add: searchMovies_def Let_def)

lemma searchMovies_resolved:
  assumes "trim query \<noteq> []"
    and "api_get (searchRequest query (pageOrDefault page_arg) filters) = Inr response"
  shows "searchMovies api_get query page_arg filters s =
           s\<lparr>isLoading := False,
             error := None,
             searchQuery := query,
             sent := sent s @ [searchRequest query (pageOrDefault page_arg) filters],
             searchResults :=
               (if pageOrDefault page_arg = 1 then resultsOrEmpty response
                else searchResults s @ resultsOrEmpty response),
             currentPage := page response,
             totalPages := total_pages response,
             currentFilters := (case filters of None \<Rightarrow> noFilters | Some f \<Rightarrow> f),
             localStorage := (localStorage s)(''lastSearch'' \<mapsto> query)\<rparr>"
  using assms by (simp add: searchMovies_def Let_def)

subsection \<open>The request of a fetch\<close>

lemma sent_getTrendingMovies:
  "sent (getTrendingMovies api_get page_arg filters s) =
     sent s @ [trendingRequest (pageOrDefault page_arg) filters]"
  by (cases "api_get (trendingRequest (pageOrDefault page_arg) filters)")
     (simp_all add: getTrendingMovies_rejected getTrendingMovies_resolved)

lemma sent_searchMovies:
  "trim query \<noteq> [] \<Longrightarrow>
   sent (searchMovies api_get query page_arg filters s) =
     sent s @ [searchRequest query (pageOrDefault page_arg) filters]"
  by (cases "api_get (searchRequest query (pageOrDefault page_arg) filters)")
     (simp_all add: searchMovies_rejected searchMovies_resolved)

lemma addFilterParams_with_genres:
  "ps ''with_genres'' = None \<Longrightarrow>
   addFilterParams (Some f) ps ''with_genres'' =
     (if genre f = [] then None else Some (JStr (genre f)))"
  by (simp add: addFilterParams_def Let_def)

lemma addFilterParams_primary_release_year:
  "ps ''primary_release_year'' = None \<Longrightarrow>
   addFilterParams (Some f) ps ''primary_release_year'' =
     (if year f = [] then None else Some (JStr (year f)))"
  by (simp add: addFilterParams_def Let_def)

lemma addFilterParams_vote_average_gte:
  "ps ''vote_average_gte'' = None \<Longrightarrow>
   addFilterParams (Some f) ps ''vote_average_gte'' =
     (if minRating f = [] then None else Some (JStr (minRating f)))"
  by (simp add: addFilterParams_def Let_def)

lemma params_trendingRequest:
  "params (trendingRequest pg (Some f)) ''with_genres'' =
     (if genre f = [] then None else Some (JStr (genre f)))"
  "params (trendingRequest pg (Some f)) ''primary_release_year'' =
     (if year f = [] then None else Some (JStr (year f)))"
  "params (trendingRequest pg (Some f)) ''vote_average_gte'' =
     (if minRating f = [] then None else Some (JStr (minRating f)))"
  by (simp_all add: trendingRequest_def addFilterParams_with_genres
      addFilterParams_primary_release_year addFilterParams_vote_average_gte)

lemma params_searchRequest:
  "params (searchRequest query pg (Some f)) ''with_genres'' =
     (if genre f = [] then None else Some (JStr (genre f)))"
  "params (searchRequest query pg (Some f)) ''primary_release_year'' =
     (if year f = [] then None else Some (JStr (year f)))"
  "params (searchRequest query pg (Some f)) ''vote_average_gte'' =
     (if minRating f = [] then None else Some (JStr (minRating f)))"
  by (simp_all add: searchRequest_def addFilterParams_with_genres
      addFilterParams_primary_release_year addFilterParams_vote_average_gte)

lemma addFilterParams_other:
  "k \<noteq> ''with_genres'' \<Longrightarrow> k \<noteq> ''primary_release_year'' \<Longrightarrow> k \<noteq> ''vote_average_gte'' \<Longrightarrow>
   addFilterParams filters ps k = ps k"
  by (simp add: addFilterParams_def Let_def split: option.split)

lemma trendingRequest_fixed:
  "url (trendingRequest pg filters) = ''/trending/movie/day''"
  "params (trendingRequest pg filters) ''page'' = Some (JNum pg)"
  by (simp_all add: trendingRequest_def addFilterParams_other)

lemma searchRequest_fixed:
  "url (searchRequest query pg filters) = ''/search/movie''"
  "params (searchRequest query pg filters) ''query'' = Some (JStr query)"
  "params (searchRequest query pg filters) ''page'' = Some (JNum pg)"
  "params (searchRequest query pg filters) ''include_adult'' = Some (JBool False)"
  by (simp_all add: searchRequest_def addFilterParams_other)

subsection \<open>The sum of two numbers\<close>

text \<open>
  Within \<open>2 ^ 53\<close> the sum is exact. Beyond, it is not: \<^verbatim>\<open>2 ** 53 + 1\<close> is
  \<^verbatim>\<open>2 ** 53\<close> again, and \<^verbatim>\<open>2 ** 53 + 2 + 1\<close> is \<^verbatim>\<open>2 ** 53 + 4\<close>.
\<close>

lemma bitLength_halve: "n \<noteq> 0 \<Longrightarrow> bitLength n = Suc (bitLength (n div 2))"
  by (cases n) simp_all

lemma addNumbers_exact: "\<bar>a + b\<bar> \<le> 2 ^ 53 \<Longrightarrow> addNumbers a b = a + b"
  by (simp add: addNumbers_def roundToDouble_def Let_def nat_le_iff)

lemma addNumbers_rounds: "addNumbers (2 ^ 53) 1 = 2 ^ 53"
  by (simp add: addNumbers_def roundToDouble_def Let_def bitLength_halve)

lemma addNumbers_rounds_up: "addNumbers (2 ^ 53 + 2) 1 = 2 ^ 53 + 4"
  by (simp add: addNumbers_def roundToDouble_def Let_def bitLength_halve)

subsection \<open>After the first trending fetch\<close>

lemma afterFirstTrending_eq:
  "afterFirstTrending =
     freshState\<lparr>sent := [trendingRequest 1 None], trendingMovies := [sampleMovie 1],
       currentPage := 1, totalPages := 3\<rparr>"
  by (simp add: afterFirstTrending_def getTrendingMovies_def answering_def pageOrDefault_def
      resultsOrEmpty_def Let_def freshState_def)

subsection \<open>Favorites\<close>

lemma addToFavorites_present:
  "list_ex (\<lambda>m. movie_id m = movie_id movie) (favorites s) \<Longrightarrow>
   addToFavorites stringify movie s = s"
  by (simp add: addToFavorites_def)

lemma addToFavorites_absent:
  "\<not> list_ex (\<lambda>m. movie_id m = movie_id movie) (favorites s) \<Longrightarrow>
   addToFavorites stringify movie s =
     s\<lparr>localStorage := (localStorage s)(''favorites'' \<mapsto> stringify (favorites s @ [movie])),
       favorites := favorites s @ [movie]\<rparr>"
  by (simp add: addToFavorites_def Let_def)

lemma present_after_addToFavorites:
  "list_ex (\<lambda>m. movie_id m = movie_id movie) (favorites (addToFavorites stringify movie s))"
  by (cases "list_ex (\<lambda>m. movie_id m = movie_id movie) (favorites s)")
     (simp_all add: addToFavorites_present addToFavorites_absent)

lemma filter_other_ids:
  "\<not> list_ex (\<lambda>m. movie_id m = movieId) ms \<Longrightarrow>
   filter (\<lambda>m. movie_id m \<noteq> movieId) ms = ms"
  by (induction ms) simp_all

lemma removeFromFavorites_eq:
  "removeFromFavorites stringify movieId s =
     s\<lparr>localStorage := (localStorage s)(''favorites'' \<mapsto>
          stringify (filter (\<lambda>m. movie_id m \<noteq> movieId) (favorites s))),
       favorites := filter (\<lambda>m. movie_id m \<noteq> movieId) (favorites s)\<rparr>"
  by (simp add: removeFromFavorites_def Let_def)

section \<open>The claims\<close>

subsection \<open>Results: replace on page 1, append otherwise\<close>



subsection \<open>A rejected fetch\<close>

text \<open>
  Claim C2 as stated, that a failed trending or search fetch leaves every field but the
  error and the loading flag as it was, fails for the search: \<^verbatim>\<open>setSearchQuery(query)\<close>
  runs before the request is made, so after a rejected search of \<^verbatim>\<open>up\<close> on a fresh
  store the active query is \<^verbatim>\<open>up\<close> and no longer the empty string.
\<close>

theorem rejected_search_changes_query:
  "trim (js ''up'') \<noteq> [] \<and>
   rejecting (searchRequest (js ''up'') (pageOrDefault None) None) = Inl Rejected \<and>
   searchQuery (searchMovies rejecting (js ''up'') None None freshState) \<noteq>
     searchQuery freshState"
  using trim_js_up
  by (simp add: searchMovies_def rejecting_def Let_def freshState_def js_def)

text \<open>
  Claim C2, amended. A trending fetch that the network rejects sets the error message and
  changes no field of the store other than the error and the loading flag (which ends
  false). A search with a query that is not blank and that the network rejects sets the
  error message and changes no field other than the error, the loading flag and the
  active query, which is the query of the call. Result sequences, favorites, pagination
  counters, current filters and the storage are as before; the one request of the call
  has been handed to the network.
\<close>

theorem rejected_fetch_keeps_prior_state:
  "(api_get (trendingRequest (pageOrDefault page_arg) filters) = Inl e \<longrightarrow>
      getTrendingMovies api_get page_arg filters s =
        s\<lparr>isLoading := False,
          error := Some (js ''Failed to fetch trending movies. Please try again later.''),
          sent := sent s @ [trendingRequest (pageOrDefault page_arg) filters]\<rparr>) \<and>
   (trim query \<noteq> [] \<and>
    api_get (searchRequest query (pageOrDefault page_arg) filters) = Inl e \<longrightarrow>
      searchMovies api_get query page_arg filters s =
        s\<lparr>isLoading := False,
          error := Some (js ''Failed to find movies. Please try again later.''),
          searchQuery := query,
          sent := sent s @ [searchRequest query (pageOrDefault page_arg) filters]\<rparr>)"
  by (simp add: getTrendingMovies_rejected searchMovies_rejected)

theorem rejected_fetch_keeps_prior_state_witness:
  "rejecting (trendingRequest (pageOrDefault None) None) = Inl Rejected \<and>
   getTrendingMovies rejecting None None (freshState\<lparr>trendingMovies := [sampleMovie 1]\<rparr>) =
     freshState\<lparr>trendingMovies := [sampleMovie 1],
       isLoading := False,
       error := Some (js ''Failed to fetch trending movies. Please try again later.''),
       sent := [trendingRequest 1 None]\<rparr> \<and>
   trim (js ''up'') \<noteq> [] \<and>
   rejecting (searchRequest (js ''up'') (pageOrDefault None) None) = Inl Rejected \<and>
   searchMovies rejecting (js ''up'') None None (freshState\<lparr>searchResults := [sampleMovie 1]\<rparr>) =
     freshState\<lparr>searchResults := [sampleMovie 1],
       isLoading := False,
       error := Some (js ''Failed to find movies. Please try again later.''),
       searchQuery := js ''up'',
       sent := [searchRequest (js ''up'') 1 None]\<rparr>"
  using trim_js_up
    rejected_fetch_keeps_prior_state [where api_get = rejecting and page_arg = None
      and filters = None and e = Rejected
      and s = "freshState\<lparr>trendingMovies := [sampleMovie 1]\<rparr>" and query = "js ''up''"]
    rejected_fetch_keeps_prior_state [where api_get = rejecting and page_arg = None
      and filters = None and e = Rejected
      and s = "freshState\<lparr>searchResults := [sampleMovie 1]\<rparr>" and query = "js ''up''"]
  by (simp add: rejecting_def pageOrDefault_def freshState_def)

subsection \<open>A blank query\<close>

text \<open>
  Claim C3. A search whose query is empty or made of whitespace only returns the state it
  was given: no field of the store and no entry of the storage changes, and no request is
  handed to the network.
\<close>

theorem blank_query_search_is_noop:
  "query = [] \<or> (\<forall>c\<in>set query. isWhiteSpace c) \<Longrightarrow>
   searchMovies api_get query page_arg filters s = s \<and>
   sent (searchMovies api_get query page_arg filters s) = sent s"
proof -
  assume "query = [] \<or> (\<forall>c\<in>set query. isWhiteSpace c)"
  then have "trim query = []"
    by (auto simp: trim_empty_iff)
  then show ?thesis
    by (simp add: searchMovies_blank)
qed

theorem blank_query_search_is_noop_witness:
  "trim (js ''   '') = [] \<and>
   searchMovies (answering [sampleMovie 1] 1 1) (js ''   '') (Some 1) None freshState =
     freshState \<and>
   searchMovies (answering [sampleMovie 1] 1 1) [] (Some 1) None freshState = freshState"
  using blank_query_search_is_noop [of "js ''   ''" "answering [sampleMovie 1] 1 1" "Some 1"
      None freshState]
    blank_query_search_is_noop [of "[]" "answering [sampleMovie 1] 1 1" "Some 1" None
      freshState]
  by (simp add: js_def isWhiteSpace_def trim_def)

subsection \<open>Filters in the request\<close>

text \<open>
  Claim C4. A trending fetch that is given filters hands the network exactly one request,
  and in its parameters \<^verbatim>\<open>with_genres\<close>, \<^verbatim>\<open>primary_release_year\<close> and
  \<^verbatim>\<open>vote_average_gte\<close> are absent when the fields \<^verbatim>\<open>genre\<close>, \<^verbatim>\<open>year\<close> and
  \<^verbatim>\<open>minRating\<close> are the empty string, and present with the field's value when they are
  not. The same holds for the request of a search with a query that is not blank.
\<close>

theorem filter_params_present_iff_nonempty:
  "(let req = trendingRequest (pageOrDefault page_arg) (Some f)
    in sent (getTrendingMovies api_get page_arg (Some f) s) = sent s @ [req] \<and>
       params req ''with_genres'' =
         (if genre f = [] then None else Some (JStr (genre f))) \<and>
       params req ''primary_release_year'' =
         (if year f = [] then None else Some (JStr (year f))) \<and>
       params req ''vote_average_gte'' =
         (if minRating f = [] then None else Some (JStr (minRating f)))) \<and>
   (trim query \<noteq> [] \<longrightarrow>
     (let req = searchRequest query (pageOrDefault page_arg) (Some f)
      in sent (searchMovies api_get query page_arg (Some f) s) = sent s @ [req] \<and>
         params req ''with_genres'' =
           (if genre f = [] then None else Some (JStr (genre f))) \<and>
         params req ''primary_release_year'' =
           (if year f = [] then None else Some (JStr (year f))) \<and>
         params req ''vote_average_gte'' =
           (if minRating f = [] then None else Some (JStr (minRating f)))))"
  by (simp add: Let_def sent_getTrendingMovies sent_searchMovies params_trendingRequest
      params_searchRequest)

theorem filter_params_present_iff_nonempty_witness:
  "sent (getTrendingMovies rejecting None
      (Some \<lparr>genre = js ''28'', year = [], minRating = js ''7''\<rparr>) freshState) =
     [trendingRequest 1 (Some \<lparr>genre = js ''28'', year = [], minRating = js ''7''\<rparr>)] \<and>
   params (trendingRequest 1 (Some \<lparr>genre = js ''28'', year = [], minRating = js ''7''\<rparr>))
     ''with_genres'' = Some (JStr (js ''28'')) \<and>
   params (trendingRequest 1 (Some \<lparr>genre = js ''28'', year = [], minRating = js ''7''\<rparr>))
     ''primary_release_year'' = None \<and>
   trim (js ''up'') \<noteq> [] \<and>
   sent (searchMovies rejecting (js ''up'') None
      (Some \<lparr>genre = js ''28'', year = [], minRating = js ''7''\<rparr>) freshState) =
     [searchRequest (js ''up'') 1 (Some \<lparr>genre = js ''28'', year = [], minRating = js ''7''\<rparr>)] \<and>
   params (searchRequest (js ''up'') 1
      (Some \<lparr>genre = js ''28'', year = [], minRating = js ''7''\<rparr>))
     ''primary_release_year'' = None \<and>
   params (searchRequest (js ''up'') 1
      (Some \<lparr>genre = js ''28'', year = [], minRating = js ''7''\<rparr>))
     ''vote_average_gte'' = Some (JStr (js ''7''))"
proof -
  have filled: "js ''28'' \<noteq> []" "js ''7'' \<noteq> []"
    by (simp_all add: js_def)
  have start: "sent freshState = []"
    by (simp add: freshState_def)
  show ?thesis
    using trim_js_up filled start
      filter_params_present_iff_nonempty [where api_get = rejecting and page_arg = None
        and f = "\<lparr>genre = js ''28'', year = [], minRating = js ''7''\<rparr>"
        and s = freshState and query = "js ''up''"]
    by (simp add: Let_def pageOrDefault_def)
qed

subsection \<open>Loading more\<close>

text \<open>
  Claim C5 as stated, that with the current page below the total \<^verbatim>\<open>loadMoreResults\<close>
  issues the search fetch for the next page, fails where the recorded query is blank:
  \<^verbatim>\<open>searchMovies\<close> returns at its first line. After the trending fetch of the first
  render has delivered page 1 of 3 the query is the empty string, and
  \<^verbatim>\<open>loadMoreResults\<close> hands the network nothing and leaves the state as it is, whatever
  the network would answer.
\<close>

theorem loadMoreResults_blank_query_sends_nothing:
  "currentPage afterFirstTrending < totalPages afterFirstTrending \<and>
   sent (loadMoreResults (answering [sampleMovie 2] 2 3) afterFirstTrending) =
     sent afterFirstTrending \<and>
   loadMoreResults (answering [sampleMovie 2] 2 3) afterFirstTrending = afterFirstTrending"
proof -
  have "trim (searchQuery afterFirstTrending) = []"
    by (simp add: afterFirstTrending_eq freshState_def trim_def)
  then have "loadMoreResults (answering [sampleMovie 2] 2 3) afterFirstTrending =
      afterFirstTrending"
    by (simp add: loadMoreResults_def searchMovies_blank)
  moreover have "currentPage afterFirstTrending < totalPages afterFirstTrending"
    by (simp add: afterFirstTrending_eq)
  ultimately show ?thesis by simp
qed

text \<open>
  Claim C5, amended. When the current page is not below the total,
  \<^verbatim>\<open>loadMoreTrending\<close> and \<^verbatim>\<open>loadMoreResults\<close> return the state they were given, so
  no request is made. When the current page is below the total:
  \<^verbatim>\<open>loadMoreTrending\<close> is the trending fetch of the next page with the recorded filters,
  and hands the network one request, to \<^verbatim>\<open>/trending/movie/day\<close>, whose \<^verbatim>\<open>page\<close> is
  the next page and whose filter parameters are those of the recorded filters;
  \<^verbatim>\<open>loadMoreResults\<close> is the search of the recorded query for the next page with the
  recorded filters, which changes nothing when the recorded query is blank and otherwise
  hands the network one request, to \<^verbatim>\<open>/search/movie\<close>, whose \<^verbatim>\<open>query\<close> is the
  recorded query, whose \<^verbatim>\<open>page\<close> is the next page, whose \<^verbatim>\<open>include_adult\<close> is false
  and whose filter parameters are those of the recorded filters. The next page is the sum
  \<^verbatim>\<open>currentPage + 1\<close> of two numbers, which is the integer \<open>currentPage + 1\<close> as long
  as that is at most \<open>2 ^ 53\<close> in magnitude.
\<close>

theorem loadMore_guarded_continuation:
  "(totalPages s \<le> currentPage s \<longrightarrow>
      loadMoreTrending api_get s = s \<and> loadMoreResults api_get s = s) \<and>
   (currentPage s < totalPages s \<longrightarrow>
      (let next = addNumbers (currentPage s) 1;
           f = currentFilters s;
           treq = trendingRequest next (Some f);
           sreq = searchRequest (searchQuery s) next (Some f)
       in loadMoreTrending api_get s = getTrendingMovies api_get (Some next) (Some f) s \<and>
          sent (loadMoreTrending api_get s) = sent s @ [treq] \<and>
          url treq = ''/trending/movie/day'' \<and>
          params treq ''page'' = Some (JNum next) \<and>
          params treq ''with_genres'' =
            (if genre f = [] then None else Some (JStr (genre f))) \<and>
          params treq ''primary_release_year'' =
            (if year f = [] then None else Some (JStr (year f))) \<and>
          params treq ''vote_average_gte'' =
            (if minRating f = [] then None else Some (JStr (minRating f))) \<and>
          loadMoreResults api_get s =
            searchMovies api_get (searchQuery s) (Some next) (Some f) s \<and>
          (trim (searchQuery s) = [] \<longrightarrow> loadMoreResults api_get s = s) \<and>
          (trim (searchQuery s) \<noteq> [] \<longrightarrow>
             sent (loadMoreResults api_get s) = sent s @ [sreq] \<and>
             url sreq = ''/search/movie'' \<and>
             params sreq ''query'' = Some (JStr (searchQuery s)) \<and>
             params sreq ''page'' = Some (JNum next) \<and>
             params sreq ''include_adult'' = Some (JBool False) \<and>
             params sreq ''with_genres'' =
               (if genre f = [] then None else Some (JStr (genre f))) \<and>
             params sreq ''primary_release_year'' =
               (if year f = [] then None else Some (JStr (year f))) \<and>
             params sreq ''vote_average_gte'' =
               (if minRating f = [] then None else Some (JStr (minRating f)))) \<and>
          (\<bar>currentPage s + 1\<bar> \<le> 2 ^ 53 \<longrightarrow> next = currentPage s + 1)))"
proof (intro conjI impI)
  assume "totalPages s \<le> currentPage s"
  then show "loadMoreTrending api_get s = s" and "loadMoreResults api_get s = s"
    by (simp_all add: loadMoreTrending_def loadMoreResults_def)
next
  assume more: "currentPage s < totalPages s"
  have trending: "loadMoreTrending api_get s =
      getTrendingMovies api_get (Some (addNumbers (currentPage s) 1)) (Some (currentFilters s)) s"
    using more by (simp add: loadMoreTrending_def)
  have search: "loadMoreResults api_get s =
      searchMovies api_get (searchQuery s) (Some (addNumbers (currentPage s) 1))
        (Some (currentFilters s)) s"
    using more by (simp add: loadMoreResults_def)
  show "let next = addNumbers (currentPage s) 1;
            f = currentFilters s;
            treq = trendingRequest next (Some f);
            sreq = searchRequest (searchQuery s) next (Some f)
        in loadMoreTrending api_get s = getTrendingMovies api_get (Some next) (Some f) s \<and>
           sent (loadMoreTrending api_get s) = sent s @ [treq] \<and>
           url treq = ''/trending/movie/day'' \<and>
           params treq ''page'' = Some (JNum next) \<and>
           params treq ''with_genres'' =
             (if genre f = [] then None else Some (JStr (genre f))) \<and>
           params treq ''primary_release_year'' =
             (if year f = [] then None else Some (JStr (year f))) \<and>
           params treq ''vote_average_gte'' =
             (if minRating f = [] then None else Some (JStr (minRating f))) \<and>
           loadMoreResults api_get s =
             searchMovies api_get (searchQuery s) (Some next) (Some f) s \<and>
           (trim (searchQuery s) = [] \<longrightarrow> loadMoreResults api_get s = s) \<and>
           (trim (searchQuery s) \<noteq> [] \<longrightarrow>
              sent (loadMoreResults api_get s) = sent s @ [sreq] \<and>
              url sreq = ''/search/movie'' \<and>
              params sreq ''query'' = Some (JStr (searchQuery s)) \<and>
              params sreq ''page'' = Some (JNum next) \<and>
              params sreq ''include_adult'' = Some (JBool False) \<and>
              params sreq ''with_genres'' =
                (if genre f = [] then None else Some (JStr (genre f))) \<and>
              params sreq ''primary_release_year'' =
                (if year f = [] then None else Some (JStr (year f))) \<and>
              params sreq ''vote_average_gte'' =
                (if minRating f = [] then None else Some (JStr (minRating f)))) \<and>
           (\<bar>currentPage s + 1\<bar> \<le> 2 ^ 53 \<longrightarrow> next = currentPage s + 1)"
    unfolding Let_def trending search
    by (simp add: sent_getTrendingMovies sent_searchMovies searchMovies_blank pageOrDefault_def
        trendingRequest_fixed searchRequest_fixed params_trendingRequest params_searchRequest
        addNumbers_exact)
qed

text \<open>
  On the last page nothing is loaded; on page 1 of 3 with the query \<^verbatim>\<open>up\<close> recorded,
  both continuations ask for page 2; on page 1 of 3 with no query recorded, the search
  continuation does nothing.
\<close>

theorem loadMore_guarded_continuation_witness:
  "totalPages freshState \<le> currentPage freshState \<and>
   loadMoreTrending rejecting freshState = freshState \<and>
   loadMoreResults rejecting freshState = freshState \<and>
   currentPage (freshState\<lparr>totalPages := 3, searchQuery := js ''up''\<rparr>) <
     totalPages (freshState\<lparr>totalPages := 3, searchQuery := js ''up''\<rparr>) \<and>
   sent (loadMoreTrending rejecting (freshState\<lparr>totalPages := 3, searchQuery := js ''up''\<rparr>)) =
     [trendingRequest 2 (Some noFilters)] \<and>
   params (trendingRequest 2 (Some noFilters)) ''page'' = Some (JNum 2) \<and>
   params (trendingRequest 2 (Some noFilters)) ''with_genres'' = None \<and>
   trim (js ''up'') \<noteq> [] \<and>
   sent (loadMoreResults rejecting (freshState\<lparr>totalPages := 3, searchQuery := js ''up''\<rparr>)) =
     [searchRequest (js ''up'') 2 (Some noFilters)] \<and>
   params (searchRequest (js ''up'') 2 (Some noFilters)) ''query'' = Some (JStr (js ''up'')) \<and>
   params (searchRequest (js ''up'') 2 (Some noFilters)) ''page'' = Some (JNum 2) \<and>
   currentPage afterFirstTrending < totalPages afterFirstTrending \<and>
   trim (searchQuery afterFirstTrending) = [] \<and>
   loadMoreResults rejecting afterFirstTrending = afterFirstTrending"
proof -
  let ?s = "freshState\<lparr>totalPages := 3, searchQuery := js ''up''\<rparr>"
  have last_page: "totalPages freshState \<le> currentPage freshState"
    by (simp add: freshState_def)
  have more: "currentPage ?s < totalPages ?s"
    by (simp add: freshState_def)
  have nonblank: "trim (searchQuery ?s) \<noteq> []"
    using trim_js_up by simp
  have small: "\<bar>currentPage ?s + 1\<bar> \<le> 2 ^ 53"
    by (simp add: freshState_def)
  have more': "currentPage afterFirstTrending < totalPages afterFirstTrending"
    by (simp add: afterFirstTrending_eq)
  have blank: "trim (searchQuery afterFirstTrending) = []"
    by (simp add: afterFirstTrending_eq freshState_def trim_def)
  have fresh: "loadMoreTrending rejecting freshState = freshState \<and>
      loadMoreResults rejecting freshState = freshState"
    using loadMore_guarded_continuation [of freshState rejecting] last_page
    by blast
  have first: "loadMoreResults rejecting afterFirstTrending = afterFirstTrending"
    using loadMore_guarded_continuation [of afterFirstTrending rejecting,
        THEN conjunct2, THEN mp, OF more', unfolded Let_def] blank
    by blast
  have cont: "sent (loadMoreTrending rejecting ?s) =
        sent ?s @ [trendingRequest (addNumbers (currentPage ?s) 1) (Some (currentFilters ?s))]"
    "params (trendingRequest (addNumbers (currentPage ?s) 1) (Some (currentFilters ?s)))
        ''page'' = Some (JNum (addNumbers (currentPage ?s) 1))"
    "params (trendingRequest (addNumbers (currentPage ?s) 1) (Some (currentFilters ?s)))
        ''with_genres'' =
          (if genre (currentFilters ?s) = [] then None
           else Some (JStr (genre (currentFilters ?s))))"
    "sent (loadMoreResults rejecting ?s) =
        sent ?s @ [searchRequest (searchQuery ?s) (addNumbers (currentPage ?s) 1)
                     (Some (currentFilters ?s))]"
    "params (searchRequest (searchQuery ?s) (addNumbers (currentPage ?s) 1)
               (Some (currentFilters ?s))) ''query'' = Some (JStr (searchQuery ?s))"
    "params (searchRequest (searchQuery ?s) (addNumbers (currentPage ?s) 1)
               (Some (currentFilters ?s))) ''page'' =
       Some (JNum (addNumbers (currentPage ?s) 1))"
    "addNumbers (currentPage ?s) 1 = currentPage ?s + 1"
    using loadMore_guarded_continuation [of ?s rejecting,
        THEN conjunct2, THEN mp, OF more, unfolded Let_def] nonblank small
    by blast+
  show ?thesis
    using last_page more more' blank trim_js_up fresh first cont
    by (simp add: freshState_def noFilters_def)
qed

subsection \<open>Resetting the search\<close>

text \<open>
  Claim C6. After \<^verbatim>\<open>resetSearch\<close>, from any state, the search results are empty, the
  active query is the empty string, the current page is 1, the three current filters are
  empty strings, and the storage has no entry \<^verbatim>\<open>lastSearch\<close>.
\<close>

theorem resetSearch_clears_session:
  "searchResults (resetSearch s) = [] \<and>
   searchQuery (resetSearch s) = [] \<and>
   currentPage (resetSearch s) = 1 \<and>
   currentFilters (resetSearch s) = \<lparr>genre = [], year = [], minRating = []\<rparr> \<and>
   localStorage (resetSearch s) ''lastSearch'' = None"
  by (simp add: resetSearch_def noFilters_def)

subsection \<open>Favorites\<close>

text \<open>
  Claim C7. Adding a movie and then adding a movie with the same identifier again gives
  the state that the first addition gave, in the favorites in memory and in the storage
  alike; and adding a movie whose identifier is among the favorites already changes
  nothing.
\<close>

theorem addToFavorites_idempotent:
  "(movie_id again = movie_id movie \<longrightarrow>
      addToFavorites stringify again (addToFavorites stringify movie s) =
        addToFavorites stringify movie s) \<and>
   (isFavorite (movie_id movie) s \<longrightarrow> addToFavorites stringify movie s = s)"
proof (intro conjI impI)
  assume same: "movie_id again = movie_id movie"
  have "list_ex (\<lambda>m. movie_id m = movie_id again)
          (favorites (addToFavorites stringify movie s))"
    using present_after_addToFavorites [of movie stringify s] by (simp add: same)
  then show "addToFavorites stringify again (addToFavorites stringify movie s) =
      addToFavorites stringify movie s"
    by (rule addToFavorites_present)
next
  assume "isFavorite (movie_id movie) s"
  then show "addToFavorites stringify movie s = s"
    by (simp add: isFavorite_def addToFavorites_present)
qed

theorem addToFavorites_idempotent_witness:
  "addToFavorites sampleStringify (sampleMovie 7)
     (addToFavorites sampleStringify (sampleMovie 7) freshState) =
     addToFavorites sampleStringify (sampleMovie 7) freshState \<and>
   favorites (addToFavorites sampleStringify (sampleMovie 7) freshState) = [sampleMovie 7] \<and>
   localStorage (addToFavorites sampleStringify (sampleMovie 7) freshState) ''favorites'' =
     Some [7] \<and>
   isFavorite (movie_id (sampleMovie 7)) (freshState\<lparr>favorites := [sampleMovie 7]\<rparr>) \<and>
   addToFavorites sampleStringify (sampleMovie 7) (freshState\<lparr>favorites := [sampleMovie 7]\<rparr>) =
     freshState\<lparr>favorites := [sampleMovie 7]\<rparr>"
  using addToFavorites_idempotent [of "sampleMovie 7" "sampleMovie 7" sampleStringify freshState]
    addToFavorites_idempotent [of "sampleMovie 7" "sampleMovie 7" sampleStringify
      "freshState\<lparr>favorites := [sampleMovie 7]\<rparr>"]
  by (simp add: addToFavorites_def isFavorite_def freshState_def sampleStringify_def
      sampleMovie_def)

text \<open>
  Claim C8. Removing an identifier that is not among the favorites leaves the favorites in
  memory as they were, and the write to the storage happens all the same: afterwards the
  entry \<^verbatim>\<open>favorites\<close> holds the encoding of that unchanged sequence, whatever it held
  before. From a state whose entry held that encoding already, the call changes nothing
  at all.
\<close>

theorem removeFromFavorites_nonmember:
  "\<not> isFavorite movieId s \<Longrightarrow>
   favorites (removeFromFavorites stringify movieId s) = favorites s \<and>
   localStorage (removeFromFavorites stringify movieId s) ''favorites'' =
     Some (stringify (favorites s)) \<and>
   (favoritesSynced stringify s \<longrightarrow> removeFromFavorites stringify movieId s = s)"
  by (simp add: isFavorite_def favoritesSynced_def removeFromFavorites_eq filter_other_ids
      map_upd_triv)

theorem removeFromFavorites_nonmember_witness:
  "\<not> isFavorite 9 (addToFavorites sampleStringify (sampleMovie 7) freshState) \<and>
   favoritesSynced sampleStringify (addToFavorites sampleStringify (sampleMovie 7) freshState) \<and>
   removeFromFavorites sampleStringify 9
     (addToFavorites sampleStringify (sampleMovie 7) freshState) =
     addToFavorites sampleStringify (sampleMovie 7) freshState \<and>
   \<not> isFavorite 9 freshState \<and>
   favorites (removeFromFavorites sampleStringify 9 freshState) = [] \<and>
   localStorage (removeFromFavorites sampleStringify 9 freshState) ''favorites'' = Some []"
  using removeFromFavorites_nonmember [of 9
      "addToFavorites sampleStringify (sampleMovie 7) freshState" sampleStringify]
    removeFromFavorites_nonmember [of 9 freshState sampleStringify]
  by (simp add: isFavorite_def favoritesSynced_def addToFavorites_def freshState_def
      sampleStringify_def sampleMovie_def)

text \<open>
  Claim C9. From a state in which the entry \<^verbatim>\<open>favorites\<close> of the storage is the
  encoding of the favorites in memory, the state after \<^verbatim>\<open>addToFavorites\<close> and the
  state after \<^verbatim>\<open>removeFromFavorites\<close> are again such states.
\<close>

theorem favorites_write_through_synced:
  "favoritesSynced stringify s \<Longrightarrow>
   favoritesSynced stringify (addToFavorites stringify movie s) \<and>
   favoritesSynced stringify (removeFromFavorites stringify movieId s)"
  by (simp add: favoritesSynced_def addToFavorites_def removeFromFavorites_eq Let_def)

theorem favorites_write_through_synced_witness:
  "favoritesSynced sampleStringify (removeFromFavorites sampleStringify 9 freshState) \<and>
   favoritesSynced sampleStringify
     (addToFavorites sampleStringify (sampleMovie 7)
        (removeFromFavorites sampleStringify 9 freshState)) \<and>
   favoritesSynced sampleStringify
     (removeFromFavorites sampleStringify 7
        (removeFromFavorites sampleStringify 9 freshState))"
proof -
  have start: "favoritesSynced sampleStringify (removeFromFavorites sampleStringify 9 freshState)"
    by (simp add: favoritesSynced_def removeFromFavorites_eq freshState_def)
  show ?thesis
    using start favorites_write_through_synced [OF start, of "sampleMovie 7" 7]
    by simp
qed

subsection \<open>The persisted query\<close>

text \<open>
  Claim C10. A search with a query that is not blank writes the entry \<^verbatim>\<open>lastSearch\<close>
  only when the network resolves the request: when the request is rejected the storage is
  as it was, although the active query in memory is the query of the call already; when
  the request is resolved the storage differs from before in holding the query under
  \<^verbatim>\<open>lastSearch\<close>.
\<close>

theorem lastSearch_written_only_on_success:
  "trim query \<noteq> [] \<Longrightarrow>
   (api_get (searchRequest query (pageOrDefault page_arg) filters) = Inl e \<longrightarrow>
      localStorage (searchMovies api_get query page_arg filters s) = localStorage s \<and>
      searchQuery (searchMovies api_get query page_arg filters s) = query) \<and>
   (api_get (searchRequest query (pageOrDefault page_arg) filters) = Inr response \<longrightarrow>
      localStorage (searchMovies api_get query page_arg filters s) =
        (localStorage s)(''lastSearch'' \<mapsto> query))"
  by (simp add: searchMovies_rejected searchMovies_resolved)

theorem lastSearch_written_only_on_success_witness:
  "trim (js ''up'') \<noteq> [] \<and>
   rejecting (searchRequest (js ''up'') (pageOrDefault None) None) = Inl Rejected \<and>
   localStorage (searchMovies rejecting (js ''up'') None None
     (freshState\<lparr>localStorage := [''lastSearch'' \<mapsto> js ''old'']\<rparr>)) ''lastSearch'' =
       Some (js ''old'') \<and>
   searchQuery (searchMovies rejecting (js ''up'') None None
     (freshState\<lparr>localStorage := [''lastSearch'' \<mapsto> js ''old'']\<rparr>)) = js ''up'' \<and>
   answering [] 1 1 (searchRequest (js ''up'') (pageOrDefault None) None) =
     Inr \<lparr>results = Some [], page = 1, total_pages = 1\<rparr> \<and>
   localStorage (searchMovies (answering [] 1 1) (js ''up'') None None
     (freshState\<lparr>localStorage := [''lastSearch'' \<mapsto> js ''old'']\<rparr>)) ''lastSearch'' =
       Some (js ''up'')"
  using trim_js_up
    lastSearch_written_only_on_success [OF trim_js_up, where api_get = rejecting
      and page_arg = None and filters = None and e = Rejected
      and s = "freshState\<lparr>localStorage := [''lastSearch'' \<mapsto> js ''old'']\<rparr>"]
    lastSearch_written_only_on_success [OF trim_js_up, where api_get = "answering [] 1 1"
      and page_arg = None and filters = None
      and response = "\<lparr>results = Some [], page = 1, total_pages = 1\<rparr>"
      and s = "freshState\<lparr>localStorage := [''lastSearch'' \<mapsto> js ''old'']\<rparr>"]
  by (simp add: rejecting_def answering_def)

end
